theory Spec2Isabelle
  imports Main "HOL-Library.Multiset"
begin

section \<open>Data model of the ETL pipeline\<close>

text \<open>
  A cell of a pandas column is an \<open>option\<close>: \<open>None\<close> is the missing entry (NaN in an
  object or float column, NaT in a datetime column, NULL in the warehouse). A timestamp
  is a datetime64[ns] instant, the number of nanoseconds since the epoch.
\<close>

type_synonym timestamp = int

text \<open>
  A cell of the column \<open>production_line_id\<close> as \<open>pd.read_csv\<close> types it: a text in an
  object column, an integer when the whole column is digits (the column is then int64),
  or NaN for an empty cell.
\<close>

datatype key = NaN | Str string | Num int

text \<open>
  One line of the input CSV as \<open>pd.read_csv\<close> returns it, restricted to the three
  columns the pipeline reads. The status and the timestamp are kept as the text of the
  cell. \<open>columns\<close> is the header of the file, which may name further columns; the fields
  of a row whose column is absent from the header are never read, because
  \<open>transform_raw_data\<close> raises before it touches them.
\<close>

record raw_row =
  raw_production_line_id :: key
  raw_status :: "string option"
  raw_timestamp :: "string option"

record raw_df =
  columns :: "string list"
  rows :: "raw_row list"

text \<open>
  A row of the data frame \<open>df\<close> built by \<open>transform_raw_data\<close>: the raw columns after
  the rename (\<open>status\<close> to \<open>status_name\<close>, \<open>timestamp\<close> to \<open>event_time\<close>), the column
  \<open>event_time\<close> overwritten by its parsed instant, and the added column \<open>status_id\<close>.
  A data frame is the list of its rows in order, each with its index label;
  \<open>pd.read_csv\<close> labels the rows 0, 1, 2, ... and filtering and sorting keep the labels.
\<close>

record df_row =
  production_line_id :: key
  status_name :: "string option"
  event_time :: "timestamp option"
  status_id :: "int option"

type_synonym df = "(nat \<times> df_row) list"

text \<open>
  A row of the table \<open>Fact_ProcessEvents\<close>: the three columns the loader writes. The line
  identifier is a text column.
\<close>

record fact_row =
  f_production_line_id :: "string option"
  f_status_id :: "int option"
  f_event_time :: "timestamp option"

text \<open>
  The exceptions that leave the functions. \<open>ValueError\<close> carries the column name or the
  reason; \<open>LibraryError\<close> is an exception of a pandas call whose class depends on the
  pandas release.
\<close>

datatype error = FileNotFoundError | ValueError string | TypeError | LibraryError | DatabaseError

text \<open>The round trips to the warehouse, in the order they are issued.\<close>

datatype db_op =
    ReadDim
  | InsertDim "key list"
  | ReadMax
  | InsertFact "fact_row list"

text \<open>The lines the module prints, one constructor for each \<open>print\<close> call.\<close>

datatype message =
    NoDataToCheck
  | InsertedEntries nat
  | NoNewEntries
  | RowCounts nat nat nat
  | StartingExtraction
  | InputFileNotFound
  | StartingTransformation
  | QuarantinedRecords nat
  | StartingLoading
  | WarningMaxEventTime
  | TableEmptyLoadingAll nat
  | LatestEventInDB timestamp nat
  | LoadedRows nat
  | NoNewData
  | LoadingSkipped

text \<open>
  Everything the pipeline reads and writes outside its arguments: the two warehouse
  tables behind \<open>engine\<close> (\<open>None\<close> when the table does not exist, so that a query on it
  raises), whether the query for the maximum raises for any other reason
  (\<open>max_query_raises\<close>), the quarantine file named by \<open>dwh_config.QUARANTINE_FILE\<close>
  (\<open>None\<close> when there is no such file), the log of warehouse round trips and the
  console. The key column of the dimension table is a text column.
\<close>

record world =
  Dim_ProductionLine :: "string option list option"
  Fact_ProcessEvents :: "fact_row list option"
  max_query_raises :: bool
  QUARANTINE_FILE :: "df_row list option"
  db_log :: "db_op list"
  console :: "message list"

definition print :: "message \<Rightarrow> world \<Rightarrow> world" where
  "print m w = w\<lparr>console := console w @ [m]\<rparr>"

definition round_trip :: "db_op \<Rightarrow> world \<Rightarrow> world" where
  "round_trip op w = w\<lparr>db_log := db_log w @ [op]\<rparr>"

section \<open>The pandas operations the module calls\<close>

text \<open>\<open>Series.unique\<close>: the distinct entries in order of first appearance.\<close>

fun unique :: "'a list \<Rightarrow> 'a list" where
  "unique [] = []"
| "unique (x # xs) = x # unique (filter (\<lambda>y. y \<noteq> x) xs)"

text \<open>
  \<open>Series.isin\<close> on one key against the list read from the text column of the dimension
  table: a text matches the same text; an integer of an int64 column matches no text, and
  NaN does not match the \<open>None\<close> that a NULL reads back as.
\<close>

definition isin :: "key \<Rightarrow> string option list \<Rightarrow> bool" where
  "isin k existing_values =
     (case k of Str s \<Rightarrow> Some s \<in> set existing_values | Num n \<Rightarrow> False | NaN \<Rightarrow> False)"

text \<open>The decimal text of an integer.\<close>

fun decimal_nat :: "nat \<Rightarrow> string" where
  "decimal_nat n =
     (if n < 10 then [''0123456789'' ! n]
      else decimal_nat (n div 10) @ [''0123456789'' ! (n mod 10)])"

definition decimal :: "int \<Rightarrow> string" where
  "decimal i = (if i < 0 then CHR ''-'' # decimal_nat (nat (- i)) else decimal_nat (nat i))"

text \<open>
  What \<open>to_sql\<close> leaves in a text column for a key: the text, the decimal text of an
  integer, NULL for NaN.
\<close>

definition stored_key :: "key \<Rightarrow> string option" where
  "stored_key k = (case k of Str s \<Rightarrow> Some s | Num n \<Rightarrow> Some (decimal n) | NaN \<Rightarrow> None)"

text \<open>
  What \<open>to_sql\<close> leaves in a datetime column for an instant: the parameter is a Python
  \<open>datetime\<close>, which has microseconds, so the nanoseconds below the microsecond are cut.
\<close>

definition to_microseconds :: "timestamp \<Rightarrow> timestamp" where
  "to_microseconds t = (t div 1000) * 1000"

text \<open>
  \<open>DataFrame.sort_values(by='event_time')\<close> is called with the default
  \<open>kind='quicksort'\<close>, \<open>ascending=True\<close> and \<open>na_position='last'\<close>. It is library code,
  so \<open>transform_raw_data\<close> takes it as the parameter \<open>sort_values\<close>. What the library
  promises for this call is \<open>sort_values_contract\<close>: the rows come back rearranged in
  ascending order of \<open>event_time\<close>, missing entries last.
\<close>

fun time_le :: "timestamp option \<Rightarrow> timestamp option \<Rightarrow> bool" where
  "time_le _ None = True"
| "time_le None (Some _) = False"
| "time_le (Some a) (Some b) = (a \<le> b)"

definition by_event_time :: "nat \<times> df_row \<Rightarrow> nat \<times> df_row \<Rightarrow> bool" where
  "by_event_time a b = time_le (event_time (snd a)) (event_time (snd b))"

definition sort_values_contract :: "(df \<Rightarrow> df) \<Rightarrow> bool" where
  "sort_values_contract sort_values =
     (\<forall>d. mset (sort_values d) = mset d \<and> sorted_wrt by_event_time (sort_values d))"

text \<open>
  A sorting procedure that meets the contract, used in the examples: it takes the rows
  from the last to the first and inserts each in front of the first row that is not
  earlier.
\<close>

fun insert_row :: "nat \<times> df_row \<Rightarrow> df \<Rightarrow> df" where
  "insert_row x [] = [x]"
| "insert_row x (y # ys) = (if by_event_time x y then x # y # ys else y # insert_row x ys)"

definition insertion_sort :: "df \<Rightarrow> df" where
  "insertion_sort d = foldr insert_row d []"

text \<open>
  \<open>pd.to_datetime(..., errors='coerce')\<close> is library code as well: the parameter
  \<open>to_datetime\<close> gives the parsed instant of a cell text, \<open>None\<close> (NaT) when the text does
  not parse. A missing cell stays missing. The library may choose the format from the
  column as a whole; within one batch the result is still one function of the cell
  text, and the properties below hold for every such function. Whether the parsed
  column is zone-aware (the texts carry an offset) or naive is the second result of the
  call; the pipeline run takes it as the parameter \<open>tz_aware\<close>.
  \<open>to_datetime_sample\<close> agrees with the library on every text the examples below use:
  four ISO timestamps, and texts that do not parse.
\<close>

definition to_datetime_sample :: "string \<Rightarrow> timestamp option" where
  "to_datetime_sample = map_of
     [(''2024-01-01T00:00:00'', 1704067200000000000),
      (''2024-01-01T00:05:00'', 1704067500000000000),
      (''2024-01-01T00:10:00'', 1704067800000000000),
      (''2024-01-01T00:15:00'', 1704068100000000000)]"

section \<open>The status enumeration \<open>dwh_config.STATUS_MAP\<close>\<close>

definition STATUS_MAP :: "string \<Rightarrow> int option" where
  "STATUS_MAP = map_of [(''START'', 1), (''ON'', 2), (''STOP'', 3)]"

section \<open>The dimension reconciler \<open>check_and_insert_dimension\<close>\<close>

text \<open>
  The column is given by its selector. The only dimension table of the warehouse model is
  \<open>Dim_ProductionLine\<close>, the table of the single call site. A query on a table that does
  not exist raises; the exception leaves the function (there is no handler).
\<close>

definition check_and_insert_dimension ::
  "world \<Rightarrow> df \<Rightarrow> (df_row \<Rightarrow> key) \<Rightarrow> error option \<times> world" where
  "check_and_insert_dimension w fact_df column_name =
     (let unique_values = unique (map (column_name \<circ> snd) fact_df) in
      if unique_values = [] then (None, print NoDataToCheck w)
      else
        let w1 = round_trip ReadDim w in
        case Dim_ProductionLine w1 of
          None \<Rightarrow> (Some DatabaseError, w1)
        | Some existing_values \<Rightarrow>
            let to_insert = filter (\<lambda>v. \<not> isin v existing_values) unique_values in
            if to_insert \<noteq> [] then
              (None,
               print (InsertedEntries (length to_insert))
                 (round_trip (InsertDim to_insert)
                   (w1\<lparr>Dim_ProductionLine :=
                         Some (existing_values @ map stored_key to_insert)\<rparr>)))
            else (None, print NoNewEntries w1))"

section \<open>The event normalizer \<open>transform_raw_data\<close>\<close>

definition expected_raw_cols :: "string list" where
  "expected_raw_cols = [''production_line_id'', ''status'', ''timestamp'']"

text \<open>Step 2 of the function, on one row: rename, map the status, parse the timestamp.\<close>

definition transform_row :: "(string \<Rightarrow> timestamp option) \<Rightarrow> raw_row \<Rightarrow> df_row" where
  "transform_row to_datetime r =
     \<lparr>production_line_id = raw_production_line_id r,
      status_name = raw_status r,
      event_time = Option.bind (raw_timestamp r) to_datetime,
      status_id = Option.bind (raw_status r) STATUS_MAP\<rparr>"

text \<open>\<open>df[required_cols].notna().all(axis=1)\<close> on one row.\<close>

definition is_valid :: "df_row \<Rightarrow> bool" where
  "is_valid r = (production_line_id r \<noteq> NaN \<and> status_id r \<noteq> None \<and> event_time r \<noteq> None)"

text \<open>
  The function returns the pair of \<open>clean_fact_df\<close> and \<open>quarantined_df\<close>, or raises.
  It raises ValueError naming the first required column missing from the header. When
  the file has a column already named \<open>status_name\<close> or \<open>event_time\<close>, the rename leaves
  two columns of that name, \<open>df['status_name']\<close> or \<open>df['event_time']\<close> is then a frame
  and not a column, and the call on it raises: \<open>.map\<close> at line 68, in that case first,
  or \<open>pd.to_datetime\<close> at line 71 (ValueError, duplicate keys). The \<open>print\<close> of the
  row counts is issued by the caller below.
\<close>

definition transform_raw_data ::
  "(df \<Rightarrow> df) \<Rightarrow> (string \<Rightarrow> timestamp option) \<Rightarrow> raw_df \<Rightarrow> error + (df \<times> df)" where
  "transform_raw_data sort_values to_datetime raw =
     (case find (\<lambda>col. col \<notin> set (columns raw)) expected_raw_cols of
        Some col \<Rightarrow> Inl (ValueError col)
      | None \<Rightarrow>
          if ''status_name'' \<in> set (columns raw) then Inl LibraryError
          else if ''event_time'' \<in> set (columns raw) then Inl (ValueError ''duplicate keys'')
          else
            let d = enumerate 0 (map (transform_row to_datetime) (rows raw));
                clean_fact_df = filter (\<lambda>p. is_valid (snd p)) d;
                quarantined_df = filter (\<lambda>p. \<not> is_valid (snd p)) d
            in Inr (sort_values clean_fact_df, quarantined_df))"

section \<open>The pipeline run \<open>run_etl_pipeline\<close> and its fact loader\<close>

text \<open>
  \<open>SELECT MAX(event_time)\<close>: the largest non-NULL entry, NULL when there is none. The
  column is a plain datetime column: what is read back is a naive datetime.
\<close>

definition max_event_time :: "fact_row list \<Rightarrow> timestamp option" where
  "max_event_time tbl =
     (case List.map_filter f_event_time tbl of [] \<Rightarrow> None | t # ts \<Rightarrow> Some (fold max ts t))"

text \<open>
  The projection \<open>data_to_load[['production_line_id', 'status_id', 'event_time']]\<close>, as
  \<open>to_sql\<close> stores it.
\<close>

definition to_fact_row :: "df_row \<Rightarrow> fact_row" where
  "to_fact_row r =
     \<lparr>f_production_line_id = stored_key (production_line_id r),
      f_status_id = status_id r,
      f_event_time = map_option to_microseconds (event_time r)\<rparr>"

text \<open>\<open>event_time > latest_event_time\<close> on one row of a naive column; NaT compares false.\<close>

definition later_than :: "timestamp \<Rightarrow> nat \<times> df_row \<Rightarrow> bool" where
  "later_than latest p = (case event_time (snd p) of None \<Rightarrow> False | Some t \<Rightarrow> latest < t)"

text \<open>
  Step 4 b) of \<open>run_etl_pipeline\<close>, the block that loads \<open>Fact_ProcessEvents\<close>
  (lines 129 to 161): the lookup of the latest loaded timestamp inside
  \<open>try\<close>/\<open>except Exception\<close>, which catches whatever the query raises; the filter, which
  is outside the \<open>try\<close> and raises TypeError when the column \<open>event_time\<close> of the batch is
  zone-aware, the maximum being naive; and the write. \<open>to_sql(..., if_exists='append')\<close>
  creates a table that does not exist.
\<close>

definition load_fact_events :: "world \<Rightarrow> bool \<Rightarrow> df \<Rightarrow> error option \<times> world" where
  "load_fact_events w tz_aware clean_fact_df =
     (let w1 = round_trip ReadMax w;
          (latest_event_time, w2) =
            (if max_query_raises w1 then (None, print WarningMaxEventTime w1)
             else case Fact_ProcessEvents w1 of
                    None \<Rightarrow> (None, print WarningMaxEventTime w1)
                  | Some tbl \<Rightarrow> (max_event_time tbl, w1));
          filtered =
            (case latest_event_time of
               None \<Rightarrow> Inr clean_fact_df
             | Some latest \<Rightarrow>
                 if tz_aware then Inl TypeError
                 else Inr (filter (later_than latest) clean_fact_df))
      in case filtered of
           Inl e \<Rightarrow> (Some e, w2)
         | Inr data_to_load \<Rightarrow>
             let w3 =
                   (case latest_event_time of
                      None \<Rightarrow> print (TableEmptyLoadingAll (length data_to_load)) w2
                    | Some latest \<Rightarrow> print (LatestEventInDB latest (length data_to_load)) w2)
             in if data_to_load \<noteq> [] then
                  (None,
                   print (LoadedRows (length data_to_load))
                     (round_trip (InsertFact (map (to_fact_row \<circ> snd) data_to_load))
                       (w3\<lparr>Fact_ProcessEvents :=
                             Some ((case Fact_ProcessEvents w3 of None \<Rightarrow> [] | Some tbl \<Rightarrow> tbl)
                                   @ map (to_fact_row \<circ> snd) data_to_load)\<rparr>)))
                else (None, print NoNewData w3))"

text \<open>
  \<open>input_file\<close> is what \<open>pd.read_csv(input_file_path)\<close> returns, \<open>None\<close> when the file
  is not found. The result is the exception that left the function, if any, and the
  world as the run left it. \<open>to_csv(..., index=False)\<close> writes the rows without their
  index labels and replaces the file.
\<close>

definition run_etl_pipeline ::
  "(df \<Rightarrow> df) \<Rightarrow> (string \<Rightarrow> timestamp option) \<Rightarrow> bool \<Rightarrow> raw_df option \<Rightarrow> bool \<Rightarrow> world
     \<Rightarrow> error option \<times> world" where
  "run_etl_pipeline sort_values to_datetime tz_aware input_file load_data w =
     (let w1 = print StartingExtraction w in
      case input_file of
        None \<Rightarrow> (Some FileNotFoundError, print InputFileNotFound w1)
      | Some raw \<Rightarrow>
          let w2 = print StartingTransformation w1 in
          (case transform_raw_data sort_values to_datetime raw of
             Inl e \<Rightarrow> (Some e, w2)
           | Inr (clean_fact_df, quarantined_df) \<Rightarrow>
               let w3 = print (RowCounts (length (rows raw)) (length clean_fact_df)
                                 (length quarantined_df)) w2;
                   w4 = (if quarantined_df \<noteq> [] then
                           print (QuarantinedRecords (length quarantined_df))
                             (w3\<lparr>QUARANTINE_FILE := Some (map snd quarantined_df)\<rparr>)
                         else w3)
               in if load_data then
                    (case check_and_insert_dimension (print StartingLoading w4)
                            clean_fact_df production_line_id of
                       (Some e, w5) \<Rightarrow> (Some e, w5)
                     | (None, w5) \<Rightarrow> load_fact_events w5 tz_aware clean_fact_df)
                  else (None, print LoadingSkipped w4)))"

section \<open>Notions the properties are stated with\<close>

text \<open>
  The acceptance condition on a raw row: line identifier, mapped status and parsed
  timestamp are all present.
\<close>

definition accepted_condition :: "(string \<Rightarrow> timestamp option) \<Rightarrow> raw_row \<Rightarrow> bool" where
  "accepted_condition to_datetime r =
     (raw_production_line_id r \<noteq> NaN \<and> Option.bind (raw_status r) STATUS_MAP \<noteq> None \<and>
      Option.bind (raw_timestamp r) to_datetime \<noteq> None)"


text \<open>
  The row of the fact table that stands for an accepted event, field by field: the line
  identifier as its text, the status code, and the event time cut to whole microseconds.
\<close>

definition spec_stored_event :: "nat \<times> df_row \<Rightarrow> fact_row" where
  "spec_stored_event p =
     \<lparr>f_production_line_id =
        (case production_line_id (snd p) of
           Str s \<Rightarrow> Some s | Num n \<Rightarrow> Some (decimal n) | NaN \<Rightarrow> None),
      f_status_id = status_id (snd p),
      f_event_time =
        (case event_time (snd p) of None \<Rightarrow> None | Some t \<Rightarrow> Some (t div 1000 * 1000))\<rparr>"


text \<open>The keys a log of round trips has inserted, and the number of insert calls in it.\<close>

fun inserted_keys :: "db_op list \<Rightarrow> key list" where
  "inserted_keys [] = []"
| "inserted_keys (InsertDim ks # ops) = ks @ inserted_keys ops"
| "inserted_keys (_ # ops) = inserted_keys ops"

fun insert_calls :: "db_op list \<Rightarrow> nat" where
  "insert_calls [] = 0"
| "insert_calls (InsertDim ks # ops) = Suc (insert_calls ops)"
| "insert_calls (_ # ops) = insert_calls ops"


fun is_text :: "key \<Rightarrow> bool" where
  "is_text (Str s) = True"
| "is_text _ = False"

section \<open>Example inputs\<close>

definition csv_line :: "string \<Rightarrow> string \<Rightarrow> string \<Rightarrow> raw_row" where
  "csv_line line status time =
     \<lparr>raw_production_line_id = Str line, raw_status = Some status, raw_timestamp = Some time\<rparr>"

definition event :: "string \<Rightarrow> string \<Rightarrow> int \<Rightarrow> timestamp \<Rightarrow> df_row" where
  "event line status code time =
     \<lparr>production_line_id = Str line, status_name = Some status, event_time = Some time,
      status_id = Some code\<rparr>"

text \<open>Four lines: the second has an unknown status, the fourth a timestamp that does not parse.\<close>

definition sample_batch :: raw_df where
  "sample_batch = \<lparr>columns = expected_raw_cols, rows =
     [csv_line ''L1'' ''STOP'' ''2024-01-01T00:10:00'',
      csv_line ''L1'' ''BOGUS'' ''2024-01-01T00:15:00'',
      csv_line ''L1'' ''START'' ''2024-01-01T00:00:00'',
      csv_line ''L2'' ''ON'' ''not-a-date'']\<rparr>"

definition sample_clean :: df where
  "sample_clean =
     [(2, event ''L1'' ''START'' 1 1704067200000000000),
      (0, event ''L1'' ''STOP'' 3 1704067800000000000)]"

definition sample_quarantined :: df where
  "sample_quarantined =
     [(1, \<lparr>production_line_id = Str ''L1'', status_name = Some ''BOGUS'',
           event_time = Some 1704068100000000000, status_id = None\<rparr>),
      (3, \<lparr>production_line_id = Str ''L2'', status_name = Some ''ON'',
           event_time = None, status_id = Some 2\<rparr>)]"

text \<open>Two valid lines with the same timestamp.\<close>

definition tied_batch :: raw_df where
  "tied_batch = \<lparr>columns = expected_raw_cols, rows =
     [csv_line ''L1'' ''START'' ''2024-01-01T00:00:00'',
      csv_line ''L2'' ''START'' ''2024-01-01T00:00:00'']\<rparr>"

text \<open>The same two lines in a file that has a fourth column, named \<open>event_time\<close>.\<close>

definition clashing_batch :: raw_df where
  "clashing_batch = tied_batch\<lparr>columns := expected_raw_cols @ [''event_time'']\<rparr>"

text \<open>One line whose timestamp text is the argument.\<close>

definition one_line_batch :: "string \<Rightarrow> raw_df" where
  "one_line_batch time = \<lparr>columns = expected_raw_cols, rows = [csv_line ''L1'' ''START'' time]\<rparr>"

text \<open>
  A warehouse that knows line L1, with the given fact table, whose queries do not raise
  on an existing table, and a quarantine file left by an earlier run.
\<close>

definition warehouse :: "fact_row list option \<Rightarrow> world" where
  "warehouse facts =
     \<lparr>Dim_ProductionLine = Some [Some ''L1''],
      Fact_ProcessEvents = facts,
      max_query_raises = False,
      QUARANTINE_FILE = Some [\<lparr>production_line_id = Str ''L9'', status_name = Some ''IDLE'',
                               event_time = None, status_id = None\<rparr>],
      db_log = [],
      console = []\<rparr>"

text \<open>
  The scenario of the specification: the fact table holds an event of 00:10:00, the
  accepted batch holds events of 00:05:00 and 00:15:00.
\<close>

definition scenario_facts :: "fact_row list" where
  "scenario_facts =
     [\<lparr>f_production_line_id = Some ''L1'', f_status_id = Some 1,
       f_event_time = Some 1704067800000000000\<rparr>]"





section \<open>Facts about the library operations\<close>

lemma set_unique: "set (unique xs) = set xs"
  by (induction xs rule: unique.induct) auto

lemma distinct_unique: "distinct (unique xs)"
  by (induction xs rule: unique.induct) (auto simp: set_unique)

lemma unique_Nil_iff: "unique xs = [] \<longleftrightarrow> xs = []"
  by (cases xs) auto

lemma time_le_total: "time_le a b \<or> time_le b a"
  by (cases a; cases b) auto

lemma time_le_trans: "time_le a b \<Longrightarrow> time_le b c \<Longrightarrow> time_le a c"
  by (cases a; cases b; cases c) auto

lemma by_event_time_trans: "by_event_time a b \<Longrightarrow> by_event_time b c \<Longrightarrow> by_event_time a c"
  unfolding by_event_time_def by (rule time_le_trans)

lemma by_event_time_total: "\<not> by_event_time a b \<Longrightarrow> by_event_time b a"
  unfolding by_event_time_def using time_le_total by blast

lemma mset_insert_row: "mset (insert_row x ys) = add_mset x (mset ys)"
  by (induction ys) auto

lemma set_insert_row: "set (insert_row x ys) = insert x (set ys)"
  by (induction ys) auto

lemma sorted_insert_row:
  "sorted_wrt by_event_time ys \<Longrightarrow> sorted_wrt by_event_time (insert_row x ys)"
proof (induction ys)
  case Nil
  then show ?case by simp
next
  case (Cons y ys)
  show ?case
  proof (cases "by_event_time x y")
    case True
    have "\<forall>z\<in>set ys. by_event_time x z"
      using Cons.prems True by (auto intro: by_event_time_trans)
    with True Cons.prems show ?thesis by simp
  next
    case False
    then have "by_event_time y x" by (rule by_event_time_total)
    with False Cons show ?thesis by (auto simp: set_insert_row)
  qed
qed

lemma insertion_sort_contract: "sort_values_contract insertion_sort"
proof -
  have "mset (foldr insert_row d []) = mset d \<and> sorted_wrt by_event_time (foldr insert_row d [])"
    for d
    by (induction d) (auto simp: mset_insert_row sorted_insert_row)
  then show ?thesis by (simp add: sort_values_contract_def insertion_sort_def)
qed

lemma contract_mset: "sort_values_contract sv \<Longrightarrow> mset (sv d) = mset d"
  by (simp add: sort_values_contract_def)

lemma contract_set: "sort_values_contract sv \<Longrightarrow> set (sv d) = set d"
  by (metis contract_mset set_mset_mset)

lemma contract_sorted: "sort_values_contract sv \<Longrightarrow> sorted_wrt by_event_time (sv d)"
  by (simp add: sort_values_contract_def)

lemma decimal_47: "decimal 47 = ''47''"
  by code_simp

section \<open>Facts about \<open>transform_raw_data\<close>\<close>

lemma find_missing_None:
  "find (\<lambda>col. col \<notin> set cs) expected = None \<longleftrightarrow> set expected \<subseteq> set cs"
  by (auto simp: find_None_iff)

lemma transform_raw_data_Inr:
  "transform_raw_data sv td raw = Inr (clean, quar) \<longleftrightarrow>
     set expected_raw_cols \<subseteq> set (columns raw) \<and>
     ''status_name'' \<notin> set (columns raw) \<and> ''event_time'' \<notin> set (columns raw) \<and>
     clean = sv (filter (\<lambda>p. is_valid (snd p)) (enumerate 0 (map (transform_row td) (rows raw)))) \<and>
     quar = filter (\<lambda>p. \<not> is_valid (snd p)) (enumerate 0 (map (transform_row td) (rows raw)))"
proof (cases "find (\<lambda>col. col \<notin> set (columns raw)) expected_raw_cols")
  case None
  then show ?thesis
    using find_missing_None [of "columns raw" expected_raw_cols]
    by (auto simp: transform_raw_data_def Let_def)
next
  case (Some col)
  then have "\<not> set expected_raw_cols \<subseteq> set (columns raw)"
    using find_missing_None [of "columns raw" expected_raw_cols] by simp
  with Some show ?thesis
    by (simp add: transform_raw_data_def)
qed

lemma is_valid_transform_row:
  "is_valid (transform_row td r) \<longleftrightarrow> accepted_condition td r"
  by (simp add: is_valid_def transform_row_def accepted_condition_def)

lemma in_enumerate_map:
  "p \<in> set (enumerate 0 (map f xs)) \<longleftrightarrow> fst p < length xs \<and> snd p = f (xs ! fst p)"
  by (cases p) (auto simp: in_set_enumerate_eq)

lemma sorted_index_filter_enumerate:
  "sorted_wrt (\<lambda>p q. fst p < fst q) (filter P (enumerate n xs))"
proof -
  have "sorted_wrt (\<lambda>p q. fst p < fst q) (enumerate n xs)"
    by (simp add: sorted_wrt_map[symmetric] flip: strict_sorted_iff sorted_wrt_map)
  then show ?thesis by (rule sorted_wrt_filter)
qed

lemma sample_transform:
  "transform_raw_data insertion_sort to_datetime_sample sample_batch =
     Inr (sample_clean, sample_quarantined)"
  by code_simp

section \<open>Facts about the dimension reconciler\<close>

lemma inserted_keys_append: "inserted_keys (xs @ ys) = inserted_keys xs @ inserted_keys ys"
  by (induction xs rule: inserted_keys.induct) auto

lemma insert_calls_append: "insert_calls (xs @ ys) = insert_calls xs + insert_calls ys"
  by (induction xs rule: insert_calls.induct) auto



lemma isin_text: "is_text k \<Longrightarrow> isin k existing \<longleftrightarrow> stored_key k \<in> set existing"
  by (cases k) (simp_all add: isin_def stored_key_def)

lemma stored_key_inj_text: "is_text k \<Longrightarrow> is_text k' \<Longrightarrow> stored_key k = stored_key k' \<longleftrightarrow> k = k'"
  by (cases k; cases k') (simp_all add: stored_key_def)

lemma isin_append_text:
  assumes "is_text k" and "\<forall>k'\<in>set new. is_text k'"
  shows "isin k (existing @ map stored_key new) \<longleftrightarrow> isin k existing \<or> k \<in> set new"
proof -
  have "stored_key k \<in> stored_key ` set new \<longleftrightarrow> k \<in> set new"
    using assms by (auto simp: stored_key_inj_text)
  then show ?thesis
    using assms(1) by (simp add: isin_text)
qed

lemma check_and_insert_dimension_frame:
  "Fact_ProcessEvents (snd (check_and_insert_dimension w b column_name)) = Fact_ProcessEvents w"
  "QUARANTINE_FILE (snd (check_and_insert_dimension w b column_name)) = QUARANTINE_FILE w"
  "max_query_raises (snd (check_and_insert_dimension w b column_name)) = max_query_raises w"
  by (simp_all add: check_and_insert_dimension_def Let_def print_def round_trip_def
      split: option.splits)

lemma check_and_insert_dimension_step:
  assumes "Dim_ProductionLine w = Some existing"
  shows "\<exists>w' new.
     check_and_insert_dimension w b column_name = (None, w') \<and>
     Dim_ProductionLine w' = Some (existing @ map stored_key new) \<and>
     inserted_keys (db_log w') = inserted_keys (db_log w) @ new \<and>
     insert_calls (db_log w') = insert_calls (db_log w) + (if new = [] then 0 else 1) \<and>
     distinct new \<and>
     set new = {k \<in> (column_name \<circ> snd) ` set b. \<not> isin k existing}"
proof (cases "b = []")
  case True
  then show ?thesis using assms
    by (simp add: check_and_insert_dimension_def print_def)
next
  case False
  let ?u = "unique (map (column_name \<circ> snd) b)"
  let ?n = "filter (\<lambda>v. \<not> isin v existing) ?u"
  have u: "?u \<noteq> []" using False by (simp add: unique_Nil_iff)
  have d: "distinct ?n" by (simp add: distinct_unique)
  have s: "set ?n = {k \<in> (column_name \<circ> snd) ` set b. \<not> isin k existing}"
    by (auto simp: set_unique)
  show ?thesis
  proof (cases "?n = []")
    case True
    let ?w = "print NoNewEntries (round_trip ReadDim w)"
    have "check_and_insert_dimension w b column_name = (None, ?w)"
      using u True assms by (simp add: check_and_insert_dimension_def Let_def round_trip_def)
    moreover have "Dim_ProductionLine ?w = Some (existing @ map stored_key ?n)"
      using True assms by (simp add: print_def round_trip_def)
    moreover have "inserted_keys (db_log ?w) = inserted_keys (db_log w) @ ?n"
      using True by (simp add: print_def round_trip_def inserted_keys_append)
    moreover have "insert_calls (db_log ?w) = insert_calls (db_log w) + (if ?n = [] then 0 else 1)"
      using True by (simp add: print_def round_trip_def insert_calls_append)
    ultimately show ?thesis using d s by blast
  next
    case False
    let ?w = "print (InsertedEntries (length ?n))
                 (round_trip (InsertDim ?n)
                   ((round_trip ReadDim w)
                      \<lparr>Dim_ProductionLine := Some (existing @ map stored_key ?n)\<rparr>))"
    have "check_and_insert_dimension w b column_name = (None, ?w)"
      using u False assms by (simp add: check_and_insert_dimension_def Let_def round_trip_def)
    moreover have "Dim_ProductionLine ?w = Some (existing @ map stored_key ?n)"
      by (simp add: print_def round_trip_def)
    moreover have "inserted_keys (db_log ?w) = inserted_keys (db_log w) @ ?n"
      by (simp add: print_def round_trip_def inserted_keys_append)
    moreover have "insert_calls (db_log ?w) = insert_calls (db_log w) + (if ?n = [] then 0 else 1)"
      using False by (simp add: print_def round_trip_def insert_calls_append)
    ultimately show ?thesis using d s by blast
  qed
qed



section \<open>Facts about the fact loader\<close>






lemma to_fact_row_spec: "to_fact_row (snd p) = spec_stored_event p"
  by (cases "production_line_id (snd p)"; cases "event_time (snd p)")
     (simp_all add: to_fact_row_def spec_stored_event_def stored_key_def to_microseconds_def)

lemma map_to_fact_row_spec: "map (to_fact_row \<circ> snd) d = map spec_stored_event d"
  by (simp add: to_fact_row_spec)



text \<open>The loader without a maximum: the query raised, or the table has no event time.\<close>

lemma load_fact_events_all:
  assumes "max_query_raises w \<or> Fact_ProcessEvents w = None \<or>
           (\<exists>tbl. Fact_ProcessEvents w = Some tbl \<and> max_event_time tbl = None)"
  shows "fst (load_fact_events w tz_aware clean_fact_df) = None"
    and "Fact_ProcessEvents (snd (load_fact_events w tz_aware clean_fact_df)) =
           (if clean_fact_df = [] then Fact_ProcessEvents w
            else Some ((case Fact_ProcessEvents w of None \<Rightarrow> [] | Some tbl \<Rightarrow> tbl)
                       @ map spec_stored_event clean_fact_df))"
    and "db_log (snd (load_fact_events w tz_aware clean_fact_df)) =
           db_log w @ ReadMax #
             (if clean_fact_df = [] then []
              else [InsertFact (map spec_stored_event clean_fact_df)])"
  using assms
  by (auto simp: load_fact_events_def Let_def print_def round_trip_def map_to_fact_row_spec
      split: option.splits)

lemma load_fact_events_warning:
  assumes "max_query_raises w \<or> Fact_ProcessEvents w = None"
  shows "WarningMaxEventTime \<in> set (console (snd (load_fact_events w tz_aware clean_fact_df)))"
  using assms
  by (auto simp: load_fact_events_def Let_def print_def round_trip_def split: option.splits)

lemma load_fact_events_frame:
  "Dim_ProductionLine (snd (load_fact_events w tz_aware clean_fact_df)) = Dim_ProductionLine w"
  "QUARANTINE_FILE (snd (load_fact_events w tz_aware clean_fact_df)) = QUARANTINE_FILE w"
  "max_query_raises (snd (load_fact_events w tz_aware clean_fact_df)) = max_query_raises w"
  by (simp_all add: load_fact_events_def Let_def print_def round_trip_def
      split: option.splits sum.splits)



section \<open>The event normalizer\<close>

text \<open>
  Claim C4, as far as the code does it: for every input batch whose header has the three
  required columns and no column already named \<open>status_name\<close> or \<open>event_time\<close>,
  \<open>transform_raw_data\<close> returns, and partitions the batch: the accepted and the quarantined rows together are
  the rows of the transformed batch, each once; no row is in both; every index label of
  the input occurs exactly once in the two outputs; and the row of label \<open>i\<close> is
  accepted exactly when its line identifier, mapped status and parsed timestamp are all
  present, quarantined otherwise.
\<close>

theorem C4_partition:
  assumes "sort_values_contract sort_values"
    and "set expected_raw_cols \<subseteq> set (columns raw)"
    and "''status_name'' \<notin> set (columns raw)"
    and "''event_time'' \<notin> set (columns raw)"
  shows "\<exists>clean_fact_df quarantined_df.
     transform_raw_data sort_values to_datetime raw = Inr (clean_fact_df, quarantined_df) \<and>
     mset clean_fact_df + mset quarantined_df =
       mset (enumerate 0 (map (transform_row to_datetime) (rows raw))) \<and>
     set clean_fact_df \<inter> set quarantined_df = {} \<and>
     distinct (map fst (clean_fact_df @ quarantined_df)) \<and>
     set (map fst (clean_fact_df @ quarantined_df)) = {0..<length (rows raw)} \<and>
     (\<forall>i<length (rows raw).
        ((i, transform_row to_datetime (rows raw ! i)) \<in> set clean_fact_df
           \<longleftrightarrow> accepted_condition to_datetime (rows raw ! i)) \<and>
        ((i, transform_row to_datetime (rows raw ! i)) \<in> set quarantined_df
           \<longleftrightarrow> \<not> accepted_condition to_datetime (rows raw ! i)))"
proof -
  let ?d = "enumerate 0 (map (transform_row to_datetime) (rows raw))"
  let ?c = "sort_values (filter (\<lambda>p. is_valid (snd p)) ?d)"
  let ?q = "filter (\<lambda>p. \<not> is_valid (snd p)) ?d"
  have r: "transform_raw_data sort_values to_datetime raw = Inr (?c, ?q)"
    using assms(2,3,4) by (simp add: transform_raw_data_Inr)
  have mc: "mset ?c = filter_mset (\<lambda>p. is_valid (snd p)) (mset ?d)"
    by (simp add: contract_mset [OF assms(1)])
  have sc: "set ?c = {p \<in> set ?d. is_valid (snd p)}"
    by (simp add: contract_set [OF assms(1)])
  have m: "mset ?c + mset ?q = mset ?d"
    unfolding mc by simp
  have i: "set ?c \<inter> set ?q = {}"
    unfolding sc by auto
  have "mset (map fst (?c @ ?q)) = mset (map fst ?d)"
    using m by (metis mset_append mset_map)
  then have p: "mset (map fst (?c @ ?q)) = mset [0..<length (rows raw)]"
    by simp
  have dd: "distinct (map fst (?c @ ?q))"
    using p by (metis distinct_upt mset_eq_imp_distinct_iff)
  have s: "set (map fst (?c @ ?q)) = {0..<length (rows raw)}"
    using p by (metis mset_eq_setD set_upt)
  have a: "\<forall>i<length (rows raw).
        ((i, transform_row to_datetime (rows raw ! i)) \<in> set ?c
           \<longleftrightarrow> accepted_condition to_datetime (rows raw ! i)) \<and>
        ((i, transform_row to_datetime (rows raw ! i)) \<in> set ?q
           \<longleftrightarrow> \<not> accepted_condition to_datetime (rows raw ! i))"
    unfolding sc
    by (simp add: in_enumerate_map is_valid_transform_row)
  from r m i dd s a show ?thesis by blast
qed

theorem C4_partition_witness:
  "sort_values_contract insertion_sort \<and>
   set expected_raw_cols \<subseteq> set (columns sample_batch) \<and>
   ''status_name'' \<notin> set (columns sample_batch) \<and>
   ''event_time'' \<notin> set (columns sample_batch) \<and>
   transform_raw_data insertion_sort to_datetime_sample sample_batch =
     Inr (sample_clean, sample_quarantined) \<and>
   mset sample_clean + mset sample_quarantined =
     mset (enumerate 0 (map (transform_row to_datetime_sample) (rows sample_batch))) \<and>
   set sample_clean \<inter> set sample_quarantined = {} \<and>
   distinct (map fst (sample_clean @ sample_quarantined)) \<and>
   set (map fst (sample_clean @ sample_quarantined)) = {0..<length (rows sample_batch)}"
proof -
  have h1: "sort_values_contract insertion_sort" by (rule insertion_sort_contract)
  have h2: "set expected_raw_cols \<subseteq> set (columns sample_batch)"
    by (simp add: sample_batch_def)
  have h3: "''status_name'' \<notin> set (columns sample_batch)"
    and h4: "''event_time'' \<notin> set (columns sample_batch)"
    by (simp_all add: sample_batch_def expected_raw_cols_def)
  from C4_partition [OF h1 h2 h3 h4, of to_datetime_sample] h1 h2 h3 h4 show ?thesis
    unfolding sample_transform by simp
qed

text \<open>
  Claim C4 as stated covers every batch that has the three required columns. A file
  with these three and a fourth column named \<open>event_time\<close> has them, and
  \<open>transform_raw_data\<close> raises on it when it parses the timestamps: there is no
  partition.
\<close>

theorem C4_clashing_header_counterexample:
  "set expected_raw_cols \<subseteq> set (columns clashing_batch) \<and>
   transform_raw_data insertion_sort to_datetime_sample clashing_batch =
     Inl (ValueError ''duplicate keys'')"
  by (simp add: clashing_batch_def tied_batch_def transform_raw_data_def expected_raw_cols_def)

text \<open>
  Claim C5, as far as the code does it: every quarantined record carries the raw line
  identifier and the raw status text of its input row unchanged (the status under the
  name \<open>status_name\<close>), the mapped \<open>status_id\<close> and the parsed \<open>event_time\<close>, each
  missing when the mapping or the parsing failed. The raw timestamp text is not among
  its fields: the column holds the parsed time only.
\<close>

theorem C5_quarantined_fields:
  assumes "transform_raw_data sort_values to_datetime raw = Inr (clean_fact_df, quarantined_df)"
    and "(i, q) \<in> set quarantined_df"
  shows "i < length (rows raw) \<and>
     production_line_id q = raw_production_line_id (rows raw ! i) \<and>
     status_name q = raw_status (rows raw ! i) \<and>
     status_id q = Option.bind (raw_status (rows raw ! i)) STATUS_MAP \<and>
     event_time q = Option.bind (raw_timestamp (rows raw ! i)) to_datetime"
proof -
  from assms have "(i, q) \<in> set (enumerate 0 (map (transform_row to_datetime) (rows raw)))"
    by (simp add: transform_raw_data_Inr)
  then have "i < length (rows raw)" and "q = transform_row to_datetime (rows raw ! i)"
    by (simp_all add: in_enumerate_map)
  then show ?thesis by (simp add: transform_row_def)
qed

theorem C5_quarantined_fields_witness:
  "transform_raw_data insertion_sort to_datetime_sample sample_batch =
     Inr (sample_clean, sample_quarantined) \<and>
   (3, \<lparr>production_line_id = Str ''L2'', status_name = Some ''ON'',
        event_time = None, status_id = Some 2\<rparr>) \<in> set sample_quarantined \<and>
   raw_production_line_id (rows sample_batch ! 3) = Str ''L2'' \<and>
   raw_status (rows sample_batch ! 3) = Some ''ON'' \<and>
   Option.bind (raw_status (rows sample_batch ! 3)) STATUS_MAP = Some 2 \<and>
   Option.bind (raw_timestamp (rows sample_batch ! 3)) to_datetime_sample = None"
proof -
  have h2: "(3, \<lparr>production_line_id = Str ''L2'', status_name = Some ''ON'',
        event_time = None, status_id = Some 2\<rparr>) \<in> set sample_quarantined"
    by (simp add: sample_quarantined_def)
  from C5_quarantined_fields [OF sample_transform h2] sample_transform h2 show ?thesis
    by simp
qed

text \<open>
  Claim C5 as stated says that the raw timestamp text is carried forward too. Two
  batches that differ only in the timestamp text of their one line, neither text being
  a timestamp, yield the same quarantined record: the text cannot be read off it.
\<close>

theorem C5_raw_timestamp_counterexample:
  "transform_raw_data insertion_sort to_datetime_sample (one_line_batch ''not-a-date'') =
     Inr ([], [(0, \<lparr>production_line_id = Str ''L1'', status_name = Some ''START'',
                    event_time = None, status_id = Some 1\<rparr>)]) \<and>
   transform_raw_data insertion_sort to_datetime_sample (one_line_batch ''32/13/2024'') =
     Inr ([], [(0, \<lparr>production_line_id = Str ''L1'', status_name = Some ''START'',
                    event_time = None, status_id = Some 1\<rparr>)]) \<and>
   raw_timestamp (rows (one_line_batch ''not-a-date'') ! 0)
     \<noteq> raw_timestamp (rows (one_line_batch ''32/13/2024'') ! 0)"
proof -
  have "transform_raw_data insertion_sort to_datetime_sample (one_line_batch ''not-a-date'') =
     Inr ([], [(0, \<lparr>production_line_id = Str ''L1'', status_name = Some ''START'',
                    event_time = None, status_id = Some 1\<rparr>)])"
    by code_simp
  moreover have
    "transform_raw_data insertion_sort to_datetime_sample (one_line_batch ''32/13/2024'') =
     Inr ([], [(0, \<lparr>production_line_id = Str ''L1'', status_name = Some ''START'',
                    event_time = None, status_id = Some 1\<rparr>)])"
    by code_simp
  moreover have "raw_timestamp (rows (one_line_batch ''not-a-date'') ! 0)
     \<noteq> raw_timestamp (rows (one_line_batch ''32/13/2024'') ! 0)"
    by (simp add: one_line_batch_def csv_line_def)
  ultimately show ?thesis by simp
qed

text \<open>
  Claim C8: the quarantined records returned by \<open>transform_raw_data\<close> are in the order
  of the input: their index labels increase strictly along the output, and the record of
  label \<open>i\<close> is the transformed input row \<open>i\<close>.
\<close>

theorem C8_quarantine_order:
  assumes "transform_raw_data sort_values to_datetime raw = Inr (clean_fact_df, quarantined_df)"
  shows "sorted_wrt (\<lambda>p q. fst p < fst q) quarantined_df \<and>
     (\<forall>p\<in>set quarantined_df.
        fst p < length (rows raw) \<and> snd p = transform_row to_datetime (rows raw ! fst p))"
proof -
  from assms have q: "quarantined_df =
      filter (\<lambda>p. \<not> is_valid (snd p)) (enumerate 0 (map (transform_row to_datetime) (rows raw)))"
    by (simp add: transform_raw_data_Inr)
  show ?thesis
    unfolding q by (simp add: sorted_index_filter_enumerate in_enumerate_map)
qed

theorem C8_quarantine_order_witness:
  "transform_raw_data insertion_sort to_datetime_sample sample_batch =
     Inr (sample_clean, sample_quarantined) \<and>
   map fst sample_quarantined = [1, 3] \<and>
   sorted_wrt (\<lambda>p q. fst p < fst q) sample_quarantined"
proof -
  have "map fst sample_quarantined = [1, 3]"
    by (simp add: sample_quarantined_def)
  with C8_quarantine_order [OF sample_transform] sample_transform show ?thesis
    by simp
qed

section \<open>The dimension reconciler\<close>

text \<open>
  Claim C9: called with a batch that has no value in the key column,
  \<open>check_and_insert_dimension\<close> returns normally after printing its notice only: the log
  of warehouse round trips is as before, so there was no insert and no read of the
  dimension table either, and both tables are as before.
\<close>

theorem C9_empty_batch_no_round_trip:
  "check_and_insert_dimension w [] column_name = (None, print NoDataToCheck w) \<and>
   db_log (print NoDataToCheck w) = db_log w \<and>
   Dim_ProductionLine (print NoDataToCheck w) = Dim_ProductionLine w \<and>
   Fact_ProcessEvents (print NoDataToCheck w) = Fact_ProcessEvents w"
  by (simp add: check_and_insert_dimension_def print_def)




section \<open>The incremental fact loader\<close>







text \<open>
  Claim C7: for every run that loads, whose input yields accepted and quarantined
  records, on a warehouse whose dimension table exists and whose lookup of the maximum
  fails, be it that the fact table does not exist or that the query raises for any other
  reason: the run ends without an exception, the warning is on the console, and the
  loader has treated the table as empty: every accepted event is written, after the rows
  the table already had (nothing is written when there is no accepted event).
\<close>

theorem C7_lookup_failure_continues:
  assumes "transform_raw_data sort_values to_datetime raw = Inr (clean_fact_df, quarantined_df)"
    and "Dim_ProductionLine w = Some existing"
    and "max_query_raises w \<or> Fact_ProcessEvents w = None"
  shows "\<exists>w'. run_etl_pipeline sort_values to_datetime tz_aware (Some raw) True w = (None, w') \<and>
           WarningMaxEventTime \<in> set (console w') \<and>
           Fact_ProcessEvents w' =
             (if clean_fact_df = [] then Fact_ProcessEvents w
              else Some ((case Fact_ProcessEvents w of None \<Rightarrow> [] | Some tbl \<Rightarrow> tbl)
                         @ map spec_stored_event clean_fact_df))"
proof -
  define w4 where "w4 = print StartingLoading
     (if quarantined_df \<noteq> [] then
        print (QuarantinedRecords (length quarantined_df))
          ((print (RowCounts (length (rows raw)) (length clean_fact_df) (length quarantined_df))
             (print StartingTransformation (print StartingExtraction w)))
           \<lparr>QUARANTINE_FILE := Some (map snd quarantined_df)\<rparr>)
      else print (RowCounts (length (rows raw)) (length clean_fact_df) (length quarantined_df))
             (print StartingTransformation (print StartingExtraction w)))"
  have d: "Dim_ProductionLine w4 = Some existing"
    and f: "Fact_ProcessEvents w4 = Fact_ProcessEvents w"
    and q: "max_query_raises w4 = max_query_raises w"
    using assms(2) by (simp_all add: w4_def print_def)
  from check_and_insert_dimension_step [OF d, of clean_fact_df production_line_id]
  obtain w5 where c: "check_and_insert_dimension w4 clean_fact_df production_line_id = (None, w5)"
    by blast
  have f5: "Fact_ProcessEvents w5 = Fact_ProcessEvents w"
    and q5: "max_query_raises w5 = max_query_raises w"
    using check_and_insert_dimension_frame(1,3) [of w4 clean_fact_df production_line_id] c f q
    by simp_all
  have a: "max_query_raises w5 \<or> Fact_ProcessEvents w5 = None"
    using assms(3) f5 q5 by simp
  then have a': "max_query_raises w5 \<or> Fact_ProcessEvents w5 = None \<or>
           (\<exists>tbl. Fact_ProcessEvents w5 = Some tbl \<and> max_event_time tbl = None)"
    by blast
  have r: "run_etl_pipeline sort_values to_datetime tz_aware (Some raw) True w =
      load_fact_events w5 tz_aware clean_fact_df"
    using assms(1) c by (simp add: run_etl_pipeline_def Let_def w4_def)
  have "load_fact_events w5 tz_aware clean_fact_df =
      (None, snd (load_fact_events w5 tz_aware clean_fact_df))"
    using load_fact_events_all(1) [OF a', of tz_aware clean_fact_df]
    by (cases "load_fact_events w5 tz_aware clean_fact_df") simp
  with r have "run_etl_pipeline sort_values to_datetime tz_aware (Some raw) True w =
      (None, snd (load_fact_events w5 tz_aware clean_fact_df))"
    by simp
  moreover have "WarningMaxEventTime \<in> set (console (snd (load_fact_events w5 tz_aware clean_fact_df)))"
    using a by (rule load_fact_events_warning)
  moreover have "Fact_ProcessEvents (snd (load_fact_events w5 tz_aware clean_fact_df)) =
             (if clean_fact_df = [] then Fact_ProcessEvents w
              else Some ((case Fact_ProcessEvents w of None \<Rightarrow> [] | Some tbl \<Rightarrow> tbl)
                         @ map spec_stored_event clean_fact_df))"
    using load_fact_events_all(2) [OF a', of tz_aware clean_fact_df] f5 by simp
  ultimately show ?thesis by blast
qed

text \<open>
  A run on a fact table that exists and holds one event, whose query for the maximum
  raises: the two accepted events of the batch are appended to that row.
\<close>

theorem C7_lookup_failure_continues_witness:
  "transform_raw_data insertion_sort to_datetime_sample sample_batch =
     Inr (sample_clean, sample_quarantined) \<and>
   Dim_ProductionLine ((warehouse (Some scenario_facts))\<lparr>max_query_raises := True\<rparr>)
     = Some [Some ''L1''] \<and>
   max_query_raises ((warehouse (Some scenario_facts))\<lparr>max_query_raises := True\<rparr>) \<and>
   (\<exists>w'. run_etl_pipeline insertion_sort to_datetime_sample False (Some sample_batch) True
            ((warehouse (Some scenario_facts))\<lparr>max_query_raises := True\<rparr>) = (None, w') \<and>
          WarningMaxEventTime \<in> set (console w') \<and>
          Fact_ProcessEvents w' =
            Some (scenario_facts @
                 [\<lparr>f_production_line_id = Some ''L1'', f_status_id = Some 1,
                    f_event_time = Some 1704067200000000000\<rparr>,
                  \<lparr>f_production_line_id = Some ''L1'', f_status_id = Some 3,
                    f_event_time = Some 1704067800000000000\<rparr>]))"
proof -
  let ?w = "(warehouse (Some scenario_facts))\<lparr>max_query_raises := True\<rparr>"
  have h2: "Dim_ProductionLine ?w = Some [Some ''L1'']"
    and h3: "max_query_raises ?w"
    and f: "Fact_ProcessEvents ?w = Some scenario_facts"
    by (simp_all add: warehouse_def)
  then have h3': "max_query_raises ?w \<or> Fact_ProcessEvents ?w = None" by blast
  have c: "map spec_stored_event sample_clean =
                 [\<lparr>f_production_line_id = Some ''L1'', f_status_id = Some 1,
                    f_event_time = Some 1704067200000000000\<rparr>,
                  \<lparr>f_production_line_id = Some ''L1'', f_status_id = Some 3,
                    f_event_time = Some 1704067800000000000\<rparr>]"
    and n: "sample_clean \<noteq> []"
    by (simp_all add: sample_clean_def spec_stored_event_def event_def)
  from C7_lookup_failure_continues [OF sample_transform h2 h3', of False]
    sample_transform h2 h3
  show ?thesis unfolding c f using n by simp
qed

section \<open>The quarantine file\<close>

text \<open>
  Claim C10: for every run whose batch yields no quarantined record, whether it loads or
  not and whether the load ends with an exception or not, the quarantine file is after
  the run what it was before.
\<close>

theorem C10_quarantine_file_untouched:
  assumes "transform_raw_data sort_values to_datetime raw = Inr (clean_fact_df, [])"
  shows "QUARANTINE_FILE
           (snd (run_etl_pipeline sort_values to_datetime tz_aware (Some raw) load_data w))
           = QUARANTINE_FILE w"
proof (cases load_data)
  case False
  with assms show ?thesis
    by (simp add: run_etl_pipeline_def Let_def print_def)
next
  case True
  define w4 where "w4 = print StartingLoading
     (print (RowCounts (length (rows raw)) (length clean_fact_df) 0)
        (print StartingTransformation (print StartingExtraction w)))"
  have q: "QUARANTINE_FILE w4 = QUARANTINE_FILE w"
    by (simp add: w4_def print_def)
  obtain e w5 where c: "check_and_insert_dimension w4 clean_fact_df production_line_id = (e, w5)"
    by (cases "check_and_insert_dimension w4 clean_fact_df production_line_id")
  have q5: "QUARANTINE_FILE w5 = QUARANTINE_FILE w"
    using check_and_insert_dimension_frame(2) [of w4 clean_fact_df production_line_id] c q by simp
  have "snd (run_etl_pipeline sort_values to_datetime tz_aware (Some raw) load_data w) =
      (case e of Some x \<Rightarrow> w5 | None \<Rightarrow> snd (load_fact_events w5 tz_aware clean_fact_df))"
    using assms True c by (simp add: run_etl_pipeline_def Let_def w4_def split: option.splits)
  then show ?thesis
    using q5 by (simp add: load_fact_events_frame split: option.splits)
qed

theorem C10_quarantine_file_untouched_witness:
  "transform_raw_data insertion_sort to_datetime_sample tied_batch =
     Inr ([(0, event ''L1'' ''START'' 1 1704067200000000000),
           (1, event ''L2'' ''START'' 1 1704067200000000000)], []) \<and>
   QUARANTINE_FILE (snd (run_etl_pipeline insertion_sort to_datetime_sample False
                           (Some tied_batch) True (warehouse None)))
     = Some [\<lparr>production_line_id = Str ''L9'', status_name = Some ''IDLE'',
               event_time = None, status_id = None\<rparr>]"
proof -
  have h: "transform_raw_data insertion_sort to_datetime_sample tied_batch =
     Inr ([(0, event ''L1'' ''START'' 1 1704067200000000000),
           (1, event ''L2'' ''START'' 1 1704067200000000000)], [])"
    by code_simp
  have q: "QUARANTINE_FILE (warehouse None)
     = Some [\<lparr>production_line_id = Str ''L9'', status_name = Some ''IDLE'',
               event_time = None, status_id = None\<rparr>]"
    by (simp add: warehouse_def)
  from C10_quarantine_file_untouched [OF h, of False True "warehouse None"] h show ?thesis
    unfolding q by simp
qed

end
